theory Spec2Isabelle
  imports Complex_Main "HOL-Library.Word" "HOL-Library.Signed_Division"
begin

section \<open>Element type and arithmetic\<close>

text \<open>
  The header \<^verbatim>\<open>jnf_geometry.h\<close> is a template library over an element type \<open>T\<close>. The
  embedding is polymorphic in \<open>'a\<close>: an ordered ring where the source only adds, subtracts,
  multiplies and compares, an ordered field where it divides or compares with \<open>eps\<close>.
  Arithmetic is exact. A division whose divisor is zero has no value in exact arithmetic
  (the source yields an infinity or a NaN on floating element types and is undefined on
  integral ones), so every division of the source that no test guards is a branch of the
  model that returns \<open>DivByZero\<close>.
\<close>

datatype error = DivByZero

type_synonym int32 = "32 word"

definition eps :: "'a::linordered_field" where
  "eps = 1 / 1000"

text \<open>\<^verbatim>\<open>std::clamp(v, lo, hi)\<close>, by its reference implementation.\<close>

definition clamp_std :: "'a::linorder \<Rightarrow> 'a \<Rightarrow> 'a \<Rightarrow> 'a" where
  "clamp_std v lo hi = (if v < lo then lo else if hi < v then hi else v)"

definition divide_checked :: "'a::field \<Rightarrow> 'a \<Rightarrow> error + 'a" where
  "divide_checked a b = (if b = 0 then Inl DivByZero else Inr (a / b))"

text \<open>The short-circuit \<^verbatim>\<open>||\<close> of two tests that may fail: the right operand is looked at
  only when the left one is false.\<close>

definition or_else :: "error + bool \<Rightarrow> error + bool \<Rightarrow> error + bool" where
  "or_else a b = (case a of Inl e \<Rightarrow> Inl e | Inr t \<Rightarrow> if t then Inr True else b)"

section \<open>Data model\<close>

record 'a vec2 =
  x :: 'a
  y :: 'a

text \<open>The member \<^verbatim>\<open>end\<close> of \<^verbatim>\<open>line\<close> is the field \<open>endp\<close>; the member \<^verbatim>\<open>size\<close> of
  \<^verbatim>\<open>rect\<close> is the field \<open>size_r\<close>.\<close>

record 'a line =
  start :: "'a vec2"
  endp :: "'a vec2"

record 'a rect =
  pos :: "'a vec2"
  size_r :: "'a vec2"

record 'a circle =
  center :: "'a vec2"
  radius :: 'a

section \<open>Vectors\<close>

definition vec2_area :: "'a::linordered_idom vec2 \<Rightarrow> 'a" where
  "vec2_area v = x v * y v"

definition vec2_mag2 :: "'a::linordered_idom vec2 \<Rightarrow> 'a" where
  "vec2_mag2 v = x v * x v + y v * y v"

definition vec2_perp :: "'a::linordered_idom vec2 \<Rightarrow> 'a vec2" where
  "vec2_perp v = \<lparr>x = - y v, y = x v\<rparr>"

definition vec2_min :: "'a::linordered_idom vec2 \<Rightarrow> 'a vec2 \<Rightarrow> 'a vec2" where
  "vec2_min v w = \<lparr>x = min (x v) (x w), y = min (y v) (y w)\<rparr>"

definition vec2_max :: "'a::linordered_idom vec2 \<Rightarrow> 'a vec2 \<Rightarrow> 'a vec2" where
  "vec2_max v w = \<lparr>x = max (x v) (x w), y = max (y v) (y w)\<rparr>"

definition vec2_dot :: "'a::linordered_idom vec2 \<Rightarrow> 'a vec2 \<Rightarrow> 'a" where
  "vec2_dot v w = x v * x w + y v * y w"

definition vec2_cross :: "'a::linordered_idom vec2 \<Rightarrow> 'a vec2 \<Rightarrow> 'a" where
  "vec2_cross v w = x v * y w - y v * x w"

definition vec2_clamp :: "'a::linordered_idom vec2 \<Rightarrow> 'a vec2 \<Rightarrow> 'a vec2 \<Rightarrow> 'a vec2" where
  "vec2_clamp v v1 v2 = vec2_min (vec2_max v v1) v2"

definition vec2_minus :: "'a::linordered_idom vec2 \<Rightarrow> 'a vec2 \<Rightarrow> 'a vec2" where
  "vec2_minus v w = \<lparr>x = x v - x w, y = y v - y w\<rparr>"

text \<open>
  Modelled from the spec: \<^verbatim>\<open>vec2\<close> declares \<^verbatim>\<open>operator-\<close> only, while the shapes and
  queries also add two vectors and multiply a vector by a scalar. The spec gives the
  vector type component-wise \<open>+ - * /\<close> with scalars and vectors; \<open>vec2_plus\<close> and
  \<open>vec2_scale\<close> are those operators.
\<close>

definition vec2_plus :: "'a::linordered_idom vec2 \<Rightarrow> 'a vec2 \<Rightarrow> 'a vec2" where
  "vec2_plus v w = \<lparr>x = x v + x w, y = y v + y w\<rparr>"

definition vec2_scale :: "'a::linordered_idom vec2 \<Rightarrow> 'a \<Rightarrow> 'a vec2" where
  "vec2_scale v k = \<lparr>x = x v * k, y = y v * k\<rparr>"

section \<open>Shapes\<close>

subsection \<open>Segments\<close>

text \<open>The default-constructed \<^verbatim>\<open>line\<close>: both end points at the origin.\<close>

definition line_default :: "'a::linordered_idom line" where
  "line_default = \<lparr>start = \<lparr>x = 0, y = 0\<rparr>, endp = \<lparr>x = 0, y = 0\<rparr>\<rparr>"

definition line_length2 :: "'a::linordered_idom line \<Rightarrow> 'a" where
  "line_length2 l = vec2_mag2 (vec2_minus (endp l) (start l))"

definition line_vec :: "'a::linordered_idom line \<Rightarrow> 'a vec2" where
  "line_vec l = vec2_minus (endp l) (start l)"

definition line_point :: "'a::linordered_idom line \<Rightarrow> 'a \<Rightarrow> 'a vec2" where
  "line_point l t = vec2_plus (start l) (vec2_scale (vec2_minus (endp l) (start l)) t)"

subsection \<open>Rectangles\<close>

definition rect_top :: "'a::linordered_idom rect \<Rightarrow> 'a line" where
  "rect_top r =
     \<lparr>start = pos r, endp = \<lparr>x = x (pos r) + x (size_r r), y = y (pos r)\<rparr>\<rparr>"

definition rect_bottom :: "'a::linordered_idom rect \<Rightarrow> 'a line" where
  "rect_bottom r =
     \<lparr>start = \<lparr>x = x (pos r), y = y (pos r) + y (size_r r)\<rparr>,
      endp = vec2_plus (pos r) (size_r r)\<rparr>"

definition rect_left :: "'a::linordered_idom rect \<Rightarrow> 'a line" where
  "rect_left r =
     \<lparr>start = pos r, endp = \<lparr>x = x (pos r), y = y (pos r) + y (size_r r)\<rparr>\<rparr>"

definition rect_right :: "'a::linordered_idom rect \<Rightarrow> 'a line" where
  "rect_right r =
     \<lparr>start = \<lparr>x = x (pos r) + x (size_r r), y = y (pos r)\<rparr>,
      endp = vec2_plus (pos r) (size_r r)\<rparr>"

text \<open>
  \<^verbatim>\<open>rect::side(int32_t i)\<close> switches on \<^verbatim>\<open>i % 4\<close>. The remainder of C++ truncates towards
  zero and takes the sign of \<open>i\<close>: it is \<open>smod\<close> on the signed value of the word. The
  \<^verbatim>\<open>default\<close> branch returns the default-constructed segment.
\<close>

definition rect_side :: "'a::linordered_idom rect \<Rightarrow> int32 \<Rightarrow> 'a line" where
  "rect_side r i =
     (let m = sint i smod 4 in
      if m = 0 then rect_top r
      else if m = 1 then rect_right r
      else if m = 2 then rect_bottom r
      else if m = 3 then rect_left r
      else line_default)"

definition rect_area :: "'a::linordered_idom rect \<Rightarrow> 'a" where
  "rect_area r = x (size_r r) * y (size_r r)"

definition rect_perim :: "'a::linordered_idom rect \<Rightarrow> 'a" where
  "rect_perim r = 1 * (x (size_r r) + y (size_r r))"

section \<open>Closest point\<close>

definition closest_vec2_vec2 :: "'a vec2 \<Rightarrow> 'a vec2 \<Rightarrow> 'a vec2" where
  "closest_vec2_vec2 p1 p2 = p1"

definition closest_line_vec2 :: "'a::linordered_field line \<Rightarrow> 'a vec2 \<Rightarrow> error + 'a vec2" where
  "closest_line_vec2 l p =
     (let d = line_vec l in
      case divide_checked (vec2_dot d (vec2_minus p (start l))) (line_length2 l) of
        Inl e \<Rightarrow> Inl e
      | Inr t \<Rightarrow> Inr (vec2_plus (start l) (vec2_scale d (clamp_std t 0 1))))"

definition closest_rect_vec2 :: "'a::linordered_idom rect \<Rightarrow> 'a vec2 \<Rightarrow> 'a vec2" where
  "closest_rect_vec2 r p =
     \<lparr>x = clamp_std (x p) (x (pos r)) (x (pos r) + x (size_r r)),
      y = clamp_std (y p) (y (pos r)) (y (pos r) + y (size_r r))\<rparr>"

section \<open>The predicate \<open>contains\<close>\<close>

text \<open>
  The overloads on \<^verbatim>\<open>circle\<close> read the centre through the member name \<^verbatim>\<open>pos\<close>; the
  struct declares one vector member, \<^verbatim>\<open>center\<close>, and the model reads that.
\<close>

definition contains_vec2_vec2 :: "'a::linordered_field vec2 \<Rightarrow> 'a vec2 \<Rightarrow> bool" where
  "contains_vec2_vec2 p1 p2 \<longleftrightarrow> vec2_mag2 (vec2_minus p1 p2) < eps"

definition contains_line_vec2 :: "'a::linordered_field line \<Rightarrow> 'a vec2 \<Rightarrow> error + bool" where
  "contains_line_vec2 l p =
     (let d = (x p - x (start l)) * (y (endp l) - y (start l))
              - (y p - y (start l)) * (x (endp l) - x (start l)) in
      if \<bar>d\<bar> < eps then
        (case divide_checked (vec2_dot (line_vec l) (vec2_minus p (start l))) (line_length2 l) of
           Inl e \<Rightarrow> Inl e
         | Inr u \<Rightarrow> Inr (0 \<le> u \<and> u \<le> 1))
      else Inr False)"

definition contains_rect_vec2 :: "'a::linordered_idom rect \<Rightarrow> 'a vec2 \<Rightarrow> bool" where
  "contains_rect_vec2 r p \<longleftrightarrow>
     x p \<ge> x (pos r) \<and> y p \<ge> y (pos r)
     \<and> x p \<le> x (pos r) + x (size_r r) \<and> y p \<le> y (pos r) + y (size_r r)"

definition contains_circle_vec2 :: "'a::linordered_idom circle \<Rightarrow> 'a vec2 \<Rightarrow> bool" where
  "contains_circle_vec2 c p \<longleftrightarrow>
     vec2_mag2 (vec2_minus (center c) p) < radius c * radius c"

definition contains_vec2_line :: "'a vec2 \<Rightarrow> 'a line \<Rightarrow> bool" where
  "contains_vec2_line p l \<longleftrightarrow> False"

definition contains_line_line :: "'a line \<Rightarrow> 'a line \<Rightarrow> bool" where
  "contains_line_line l1 l2 \<longleftrightarrow> False"

definition contains_rect_line :: "'a::linordered_idom rect \<Rightarrow> 'a line \<Rightarrow> bool" where
  "contains_rect_line r l \<longleftrightarrow> contains_rect_vec2 r (start l) \<and> contains_rect_vec2 r (endp l)"

definition contains_circle_line :: "'a::linordered_idom circle \<Rightarrow> 'a line \<Rightarrow> bool" where
  "contains_circle_line c l \<longleftrightarrow>
     contains_circle_vec2 c (start l) \<and> contains_circle_vec2 c (endp l)"

definition contains_vec2_rect :: "'a vec2 \<Rightarrow> 'a rect \<Rightarrow> bool" where
  "contains_vec2_rect p r \<longleftrightarrow> False"

definition contains_line_rect :: "'a line \<Rightarrow> 'a rect \<Rightarrow> bool" where
  "contains_line_rect l r \<longleftrightarrow> False"

definition contains_rect_rect :: "'a::linordered_idom rect \<Rightarrow> 'a rect \<Rightarrow> bool" where
  "contains_rect_rect r1 r2 \<longleftrightarrow>
     x (pos r2) \<ge> x (pos r1)
     \<and> y (pos r2) \<ge> y (pos r1)
     \<and> x (pos r2) + x (size_r r2) < x (pos r1) + x (size_r r1)
     \<and> y (pos r2) + y (size_r r2) < y (pos r1) + y (size_r r1)"

definition contains_circle_rect :: "'a::linordered_idom circle \<Rightarrow> 'a rect \<Rightarrow> bool" where
  "contains_circle_rect c r \<longleftrightarrow>
     contains_circle_vec2 c (pos r)
     \<and> contains_circle_vec2 c \<lparr>x = x (pos r) + x (size_r r), y = y (pos r)\<rparr>
     \<and> contains_circle_vec2 c \<lparr>x = x (pos r), y = y (pos r) + y (size_r r)\<rparr>
     \<and> contains_circle_vec2 c (vec2_plus (pos r) (size_r r))"

definition contains_vec2_circle :: "'a vec2 \<Rightarrow> 'a circle \<Rightarrow> bool" where
  "contains_vec2_circle p c \<longleftrightarrow> False"

definition contains_line_circle :: "'a line \<Rightarrow> 'a circle \<Rightarrow> bool" where
  "contains_line_circle l c \<longleftrightarrow> False"

definition contains_rect_circle :: "'a rect \<Rightarrow> 'a circle \<Rightarrow> bool" where
  "contains_rect_circle r c \<longleftrightarrow> False"

definition contains_circle_circle :: "'a::linordered_idom circle \<Rightarrow> 'a circle \<Rightarrow> bool" where
  "contains_circle_circle c1 c2 \<longleftrightarrow>
     vec2_mag2 (vec2_minus (center c1) (center c2))
       \<le> (radius c1 - radius c2) * (radius c1 - radius c2)"

section \<open>The predicate \<open>overlaps\<close>\<close>

definition overlaps_vec2_vec2 :: "'a::linordered_field vec2 \<Rightarrow> 'a vec2 \<Rightarrow> bool" where
  "overlaps_vec2_vec2 p1 p2 \<longleftrightarrow> contains_vec2_vec2 p1 p2"

definition overlaps_line_vec2 :: "'a::linordered_field line \<Rightarrow> 'a vec2 \<Rightarrow> error + bool" where
  "overlaps_line_vec2 l p = contains_line_vec2 l p"

definition overlaps_rect_vec2 :: "'a::linordered_idom rect \<Rightarrow> 'a vec2 \<Rightarrow> bool" where
  "overlaps_rect_vec2 r p \<longleftrightarrow> contains_rect_vec2 r p"

definition overlaps_circle_vec2 :: "'a::linordered_idom circle \<Rightarrow> 'a vec2 \<Rightarrow> bool" where
  "overlaps_circle_vec2 c p \<longleftrightarrow> contains_circle_vec2 c p"

definition overlaps_vec2_line :: "'a::linordered_field vec2 \<Rightarrow> 'a line \<Rightarrow> error + bool" where
  "overlaps_vec2_line p l = contains_line_vec2 l p"

text \<open>\<^verbatim>\<open>overlaps(line, line)\<close> divides by \<open>d\<close> twice, with no test of \<open>d\<close> before.\<close>

definition overlaps_line_line :: "'a::linordered_field line \<Rightarrow> 'a line \<Rightarrow> error + bool" where
  "overlaps_line_line l1 l2 =
     (let d = vec2_cross (line_vec l2) (line_vec l1) in
      case divide_checked (vec2_cross (line_vec l2) (vec2_minus (start l1) (start l2))) d of
        Inl e \<Rightarrow> Inl e
      | Inr u1 \<Rightarrow>
          (case divide_checked (vec2_cross (line_vec l1) (vec2_minus (start l1) (start l2))) d of
             Inl e \<Rightarrow> Inl e
           | Inr u2 \<Rightarrow> Inr (u1 \<ge> 0 \<and> u1 \<le> 1 \<and> u2 \<ge> 0 \<and> u2 \<le> 1)))"

definition overlaps_rect_line :: "'a::linordered_field rect \<Rightarrow> 'a line \<Rightarrow> error + bool" where
  "overlaps_rect_line r l =
     or_else (overlaps_line_line (rect_top r) l)
       (or_else (overlaps_line_line (rect_bottom r) l)
          (or_else (overlaps_line_line (rect_left r) l)
             (overlaps_line_line (rect_right r) l)))"

definition overlaps_circle_line :: "'a::linordered_field circle \<Rightarrow> 'a line \<Rightarrow> error + bool" where
  "overlaps_circle_line c l =
     (case closest_line_vec2 l (center c) of
        Inl e \<Rightarrow> Inl e
      | Inr q \<Rightarrow> Inr (vec2_mag2 (vec2_minus (center c) q) < radius c * radius c))"

definition overlaps_vec2_rect :: "'a::linordered_idom vec2 \<Rightarrow> 'a rect \<Rightarrow> bool" where
  "overlaps_vec2_rect p r \<longleftrightarrow> overlaps_rect_vec2 r p"

definition overlaps_line_rect :: "'a::linordered_field line \<Rightarrow> 'a rect \<Rightarrow> error + bool" where
  "overlaps_line_rect l r = overlaps_rect_line r l"

definition overlaps_rect_rect :: "'a::linordered_idom rect \<Rightarrow> 'a rect \<Rightarrow> bool" where
  "overlaps_rect_rect r1 r2 \<longleftrightarrow>
     x (pos r1) < x (pos r2) + x (size_r r2)
     \<and> x (pos r1) + x (size_r r1) \<ge> x (pos r2)
     \<and> y (pos r1) < y (pos r2) + y (size_r r2)
     \<and> y (pos r1) + y (size_r r1) \<ge> y (pos r2)"

text \<open>
  \<^verbatim>\<open>overlaps(circle, rect)\<close> replaces a NaN squared distance by zero. Exact arithmetic has
  no NaN, so that branch is never taken in the model.
\<close>

definition overlaps_circle_rect :: "'a::linordered_idom circle \<Rightarrow> 'a rect \<Rightarrow> bool" where
  "overlaps_circle_rect c r \<longleftrightarrow>
     (let o_d = vec2_mag2 (vec2_minus
                \<lparr>x = clamp_std (x (center c)) (x (pos r)) (x (pos r) + x (size_r r)),
                 y = clamp_std (y (center c)) (y (pos r)) (y (pos r) + y (size_r r))\<rparr>
                (center c))
      in o_d - radius c * radius c < 0)"

definition overlaps_vec2_circle :: "'a::linordered_idom vec2 \<Rightarrow> 'a circle \<Rightarrow> bool" where
  "overlaps_vec2_circle p c \<longleftrightarrow> overlaps_circle_vec2 c p"

definition overlaps_line_circle :: "'a::linordered_field line \<Rightarrow> 'a circle \<Rightarrow> error + bool" where
  "overlaps_line_circle l c = overlaps_circle_line c l"

definition overlaps_rect_circle :: "'a::linordered_idom rect \<Rightarrow> 'a circle \<Rightarrow> bool" where
  "overlaps_rect_circle r c \<longleftrightarrow> overlaps_circle_rect c r"

definition overlaps_circle_circle :: "'a::linordered_idom circle \<Rightarrow> 'a circle \<Rightarrow> bool" where
  "overlaps_circle_circle c1 c2 \<longleftrightarrow>
     vec2_mag2 (vec2_minus (center c1) (center c2))
       \<le> (radius c1 + radius c2) * (radius c1 + radius c2)"

section \<open>The function \<open>intersects\<close>\<close>

text \<open>The returned \<^verbatim>\<open>std::vector\<close> is a list.\<close>

definition intersects_vec2_vec2 :: "'a::linordered_field vec2 \<Rightarrow> 'a vec2 \<Rightarrow> 'a vec2 list" where
  "intersects_vec2_vec2 p1 p2 = (if contains_vec2_vec2 p1 p2 then [p1] else [])"

definition intersects_line_vec2 ::
  "'a::linordered_field line \<Rightarrow> 'a vec2 \<Rightarrow> error + 'a vec2 list" where
  "intersects_line_vec2 l p =
     (case contains_line_vec2 l p of
        Inl e \<Rightarrow> Inl e
      | Inr t \<Rightarrow> Inr (if t then [p] else []))"

definition intersects_rect_vec2 ::
  "'a::linordered_field rect \<Rightarrow> 'a vec2 \<Rightarrow> error + 'a vec2 list" where
  "intersects_rect_vec2 r p =
     (case or_else (contains_line_vec2 (rect_top r) p)
             (or_else (contains_line_vec2 (rect_bottom r) p)
                (or_else (contains_line_vec2 (rect_left r) p)
                   (contains_line_vec2 (rect_right r) p))) of
        Inl e \<Rightarrow> Inl e
      | Inr t \<Rightarrow> Inr (if t then [p] else []))"

definition intersects_circle_vec2 ::
  "'a::linordered_field circle \<Rightarrow> 'a vec2 \<Rightarrow> 'a vec2 list" where
  "intersects_circle_vec2 c p =
     (if \<bar>vec2_mag2 (vec2_minus p (center c)) - radius c * radius c\<bar> < eps then [p] else [])"

text \<open>\<^verbatim>\<open>intersects(line, line)\<close> returns before it takes the reciprocal of a zero \<open>rd\<close>, so
  its division is total.\<close>

definition intersects_line_line :: "'a::linordered_field line \<Rightarrow> 'a line \<Rightarrow> 'a vec2 list" where
  "intersects_line_line l1 l2 =
     (let rd = vec2_cross (line_vec l1) (line_vec l2) in
      if rd = 0 then []
      else
        let rd = 1 / rd;
            rn = ((x (endp l2) - x (start l2)) * (y (start l1) - y (start l2))
                  - (y (endp l2) - y (start l2)) * (x (start l1) - x (start l2))) * rd;
            sn = ((x (endp l1) - x (start l1)) * (y (start l1) - y (start l2))
                  - (y (endp l1) - y (start l2)) * (x (start l1) - x (start l2))) * rd
        in if rn < 0 \<or> rn > 1 \<or> sn < 0 \<or> sn > 1 then []
           else [vec2_plus (start l1) (vec2_scale (vec2_minus (endp l1) (start l1)) rn)])"

text \<open>The loop of \<^verbatim>\<open>intersects(rect, line)\<close> over the sides 0 to 3 keeps the first point of
  each side's result.\<close>

definition intersects_rect_line :: "'a::linordered_field rect \<Rightarrow> 'a line \<Rightarrow> 'a vec2 list" where
  "intersects_rect_line r l =
     concat (map (\<lambda>i. take 1 (intersects_line_line (rect_side r i) l)) [0, 1, 2, 3])"

section \<open>Unfolding lemmas\<close>

lemmas vec2_defs = vec2_mag2_def vec2_minus_def vec2_plus_def vec2_scale_def vec2_dot_def
  vec2_cross_def

lemmas line_defs = line_vec_def line_length2_def line_point_def line_default_def

lemmas rect_defs = rect_top_def rect_bottom_def rect_left_def rect_right_def

section \<open>Symmetry of \<open>overlaps\<close>\<close>

text \<open>
  Twelve of the sixteen overloads of \<^verbatim>\<open>overlaps\<close> are one test and its forwarding mirror.
  Of the four same-type overloads, those on points, segments and circles are symmetric.
\<close>

lemma overlaps_vec2_vec2_sym:
  "overlaps_vec2_vec2 p1 p2 \<longleftrightarrow> overlaps_vec2_vec2 p2 p1"
proof -
  have "(x p1 - x p2) * (x p1 - x p2) = (x p2 - x p1) * (x p2 - x p1)"
    and "(y p1 - y p2) * (y p1 - y p2) = (y p2 - y p1) * (y p2 - y p1)"
    by (simp_all add: algebra_simps)
  then show ?thesis
    by (simp add: overlaps_vec2_vec2_def contains_vec2_vec2_def vec2_defs)
qed

lemma overlaps_circle_circle_sym:
  "overlaps_circle_circle c1 c2 \<longleftrightarrow> overlaps_circle_circle c2 c1"
proof -
  have "(x (center c1) - x (center c2)) * (x (center c1) - x (center c2))
        = (x (center c2) - x (center c1)) * (x (center c2) - x (center c1))"
    and "(y (center c1) - y (center c2)) * (y (center c1) - y (center c2))
        = (y (center c2) - y (center c1)) * (y (center c2) - y (center c1))"
    by (simp_all add: algebra_simps)
  then show ?thesis
    by (simp add: overlaps_circle_circle_def vec2_defs add.commute)
qed

lemma vec2_cross_swap:
  fixes v w :: "'a::linordered_idom vec2"
  shows "vec2_cross v w = - vec2_cross w v"
  by (simp add: vec2_cross_def)

lemma vec2_cross_minus_swap:
  fixes v a b :: "'a::linordered_idom vec2"
  shows "vec2_cross v (vec2_minus a b) = - vec2_cross v (vec2_minus b a)"
  by (simp add: vec2_cross_def vec2_minus_def algebra_simps)

lemma overlaps_line_line_sym:
  fixes l1 l2 :: "'a::linordered_field line"
  shows "overlaps_line_line l1 l2 = overlaps_line_line l2 l1"
proof -
  have d: "vec2_cross (line_vec l1) (line_vec l2) = - vec2_cross (line_vec l2) (line_vec l1)"
    by (rule vec2_cross_swap)
  have u: "vec2_cross (line_vec l1) (vec2_minus (start l2) (start l1))
           = - vec2_cross (line_vec l1) (vec2_minus (start l1) (start l2))"
    "vec2_cross (line_vec l2) (vec2_minus (start l2) (start l1))
           = - vec2_cross (line_vec l2) (vec2_minus (start l1) (start l2))"
    by (rule vec2_cross_minus_swap)+
  show ?thesis
    by (auto simp: overlaps_line_line_def [of l2 l1] overlaps_line_line_def [of l1 l2]
        divide_checked_def d u Let_def)
qed

text \<open>
  C1. For every pair of shapes, \<open>overlaps(A, B) = overlaps(B, A)\<close>; in particular for every
  pair of rects. The rect-rect overload compares with \<open><\<close> on one side and \<open>\<ge>\<close> on the
  other: the unit squares at \<open>(0,0)\<close> and \<open>(1,0)\<close>, which share an edge, overlap in one
  order and not in the other.
\<close>

theorem overlaps_rect_rect_not_symmetric:
  "overlaps_rect_rect
     \<lparr>pos = \<lparr>x = 0, y = 0\<rparr>, size_r = \<lparr>x = 1, y = 1\<rparr>\<rparr>
     \<lparr>pos = \<lparr>x = 1, y = 0\<rparr>, size_r = \<lparr>x = 1, y = (1::real)\<rparr>\<rparr>
   \<and> \<not> overlaps_rect_rect
     \<lparr>pos = \<lparr>x = 1, y = 0\<rparr>, size_r = \<lparr>x = 1, y = 1\<rparr>\<rparr>
     \<lparr>pos = \<lparr>x = 0, y = 0\<rparr>, size_r = \<lparr>x = 1, y = (1::real)\<rparr>\<rparr>"
  by (simp add: overlaps_rect_rect_def)

section \<open>Perimeter of a rect\<close>

text \<open>
  C2. \<open>Rect::perim()\<close> returns \<open>2 * (size.x + size.y)\<close>; a rect of size \<open>(2, 2)\<close> has
  perimeter 8. The source multiplies the sum by \<open>T(1)\<close>: \<open>perim\<close> is the half perimeter,
  and 4 on that rect.
\<close>

theorem rect_perim_is_half_perimeter:
  "rect_perim r = x (size_r r) + y (size_r r)
   \<and> rect_perim \<lparr>pos = \<lparr>x = 0, y = 0\<rparr>, size_r = \<lparr>x = 2, y = (2::real)\<rparr>\<rparr> = 4"
  by (simp add: rect_perim_def)

section \<open>Intersection of two segments\<close>

text \<open>The spec's scenario: the diagonals of the square of side 2 meet at \<open>(1,1)\<close>.\<close>

lemma intersects_line_line_diagonals:
  "intersects_line_line
     \<lparr>start = \<lparr>x = 0, y = 0\<rparr>, endp = \<lparr>x = 2, y = 2\<rparr>\<rparr>
     \<lparr>start = \<lparr>x = 0, y = 2\<rparr>, endp = \<lparr>x = 2, y = (0::real)\<rparr>\<rparr> = [\<lparr>x = 1, y = 1\<rparr>]"
  by (simp add: intersects_line_line_def vec2_defs line_defs Let_def)

text \<open>
  C3. \<open>intersects(Segment, Segment)\<close> returns the crossing point and is empty exactly when
  the segments are parallel or a parameter leaves \<open>[0,1]\<close>. The second parameter \<open>sn\<close> is
  computed with \<open>l1.end.y - l2.start.y\<close> where the direction of \<open>l1\<close> needs
  \<open>l1.end.y - l1.start.y\<close>. The horizontal segment \<open>(0,1)-(2,1)\<close> and the vertical segment
  \<open>(1,-2)-(1,2)\<close> are not parallel and cross at \<open>(1,1)\<close>, at the parameters \<open>1/2\<close> and
  \<open>3/4\<close>; the function returns the empty list.
\<close>

theorem intersects_line_line_misses_crossing:
  "intersects_line_line
     \<lparr>start = \<lparr>x = 0, y = 1\<rparr>, endp = \<lparr>x = 2, y = 1\<rparr>\<rparr>
     \<lparr>start = \<lparr>x = 1, y = - 2\<rparr>, endp = \<lparr>x = 1, y = (2::real)\<rparr>\<rparr> = []
   \<and> vec2_cross (line_vec \<lparr>start = \<lparr>x = 0, y = 1\<rparr>, endp = \<lparr>x = 2, y = 1\<rparr>\<rparr>)
        (line_vec \<lparr>start = \<lparr>x = 1, y = - 2\<rparr>, endp = \<lparr>x = 1, y = (2::real)\<rparr>\<rparr>) = 8
   \<and> line_point \<lparr>start = \<lparr>x = 0, y = 1\<rparr>, endp = \<lparr>x = 2, y = (1::real)\<rparr>\<rparr> (1 / 2)
       = \<lparr>x = 1, y = 1\<rparr>
   \<and> line_point \<lparr>start = \<lparr>x = 1, y = - 2\<rparr>, endp = \<lparr>x = 1, y = (2::real)\<rparr>\<rparr> (3 / 4)
       = \<lparr>x = 1, y = 1\<rparr>"
  by (simp add: intersects_line_line_def vec2_defs line_defs Let_def)

section \<open>A rect inside a rect\<close>

text \<open>
  C4. \<open>contains(A, B)\<close> holds iff every point of \<open>B\<close> lies in the closed \<open>A\<close>; so
  \<open>contains(r, r)\<close> holds for every rect of nonnegative size. The rect-rect overload
  compares the far sides with \<open><\<close>: no rect contains itself.
\<close>

theorem contains_rect_rect_irreflexive:
  "\<not> contains_rect_rect r r"
  by (simp add: contains_rect_rect_def)

section \<open>Overlap of two segments\<close>

lemma overlaps_line_line_parallel:
  "vec2_cross (line_vec l2) (line_vec l1) = 0 \<Longrightarrow> overlaps_line_line l1 l2 = Inl DivByZero"
  by (simp add: overlaps_line_line_def divide_checked_def)

text \<open>
  C6. For segments whose directions have cross product \<open>d = 0\<close>, \<open>overlaps\<close> returns false
  and never divides by \<open>d\<close>. \<open>overlaps(line, line)\<close> has no test of \<open>d\<close> (its sibling
  \<open>intersects(line, line)\<close> returns early on \<open>rd == 0\<close>): on the parallel segments
  \<open>(0,0)-(1,0)\<close> and \<open>(0,1)-(1,1)\<close> it divides by zero.
\<close>

theorem overlaps_line_line_divides_by_zero:
  "vec2_cross (line_vec \<lparr>start = \<lparr>x = 0, y = 1\<rparr>, endp = \<lparr>x = 1, y = (1::real)\<rparr>\<rparr>)
     (line_vec \<lparr>start = \<lparr>x = 0, y = 0\<rparr>, endp = \<lparr>x = 1, y = 0\<rparr>\<rparr>) = 0
   \<and> overlaps_line_line
       \<lparr>start = \<lparr>x = 0, y = 0\<rparr>, endp = \<lparr>x = 1, y = 0\<rparr>\<rparr>
       \<lparr>start = \<lparr>x = 0, y = 1\<rparr>, endp = \<lparr>x = 1, y = (1::real)\<rparr>\<rparr> = Inl DivByZero"
  by (simp add: overlaps_line_line_def divide_checked_def vec2_defs line_defs)

section \<open>A point inside a circle\<close>

text \<open>
  C8. \<open>contains(Circle, point)\<close> is the strict test \<open>distance\<^sup>2 < radius\<^sup>2\<close>, so a point of
  the boundary is not contained: the circle of radius 2 at the origin contains \<open>(1,0)\<close>
  and does not contain \<open>(2,0)\<close>.
\<close>

theorem contains_circle_vec2_strict:
  "(contains_circle_vec2 c p \<longleftrightarrow>
      (x (center c) - x p)\<^sup>2 + (y (center c) - y p)\<^sup>2 < (radius c)\<^sup>2)
   \<and> contains_circle_vec2 \<lparr>center = \<lparr>x = 0, y = 0\<rparr>, radius = 2\<rparr> \<lparr>x = 1, y = (0::real)\<rparr>
   \<and> \<not> contains_circle_vec2 \<lparr>center = \<lparr>x = 0, y = 0\<rparr>, radius = 2\<rparr> \<lparr>x = 2, y = (0::real)\<rparr>"
  by (simp add: contains_circle_vec2_def vec2_defs power2_eq_square)

section \<open>Sides of a rect by index\<close>

lemma smod4_nonneg: "0 \<le> k \<Longrightarrow> (k::int) smod 4 = k mod 4"
  by (cases "k = 0") (simp_all add: signed_modulo_int_def)

lemma sint_small: "0 \<le> k \<Longrightarrow> k < 4 \<Longrightarrow> sint (word_of_int k :: int32) = k"
  by (simp add: sint_sbintrunc' signed_take_bit_int_eq_self)

lemma smod4_neg: "k < 0 \<Longrightarrow> \<not> 4 dvd k \<Longrightarrow> (k::int) smod 4 < 0"
  by (simp add: signed_modulo_int_def mult_less_0_iff) presburger

lemma mod4_cases: "(k::int) mod 4 = 0 \<or> k mod 4 = 1 \<or> k mod 4 = 2 \<or> k mod 4 = 3"
  by presburger

lemma rect_side_nonneg:
  assumes "0 \<le> sint i"
  shows "rect_side r i = [rect_top r, rect_right r, rect_bottom r, rect_left r] ! nat (sint i mod 4)"
  using mod4_cases [of "sint i"] assms
  by (auto simp: rect_side_def smod4_nonneg)

lemma rect_side_mod:
  assumes "0 \<le> sint i"
  shows "rect_side r i = rect_side r (word_of_int (sint i mod 4))"
proof -
  let ?k = "sint i mod 4"
  have k: "0 \<le> ?k" "?k < 4" by simp_all
  then have s: "sint (word_of_int ?k :: int32) = ?k" by (rule sint_small)
  show ?thesis
    using assms k by (simp add: rect_side_def s smod4_nonneg)
qed

lemma rect_side_neg:
  assumes "sint i < 0" "\<not> 4 dvd sint i"
  shows "rect_side r i = line_default"
  using smod4_neg [OF assms] by (simp add: rect_side_def)

lemma smod4_dvd: "4 dvd k \<Longrightarrow> (k::int) smod 4 = 0"
  by (simp add: signed_modulo_int_def)

lemma rect_side_multiple:
  assumes "4 dvd sint i"
  shows "rect_side r i = rect_top r"
    and "rect_side r i = rect_side r (word_of_int (sint i mod 4))"
  using assms by (simp_all add: rect_side_def smod4_dvd signed_modulo_int_def)

text \<open>
  C5, as the source has it. For an index \<open>i\<close> that is nonnegative or a multiple of 4
  (the negative multiples too), \<open>side(i) = side(i mod 4)\<close>, and the sides are top, right,
  bottom, left at the remainders 0, 1, 2, 3. For a negative index that is no multiple of 4
  the remainder \<^verbatim>\<open>i % 4\<close> is negative and \<open>side\<close> takes the \<^verbatim>\<open>default\<close> branch: it returns
  the default segment, both end points at the origin.
\<close>

theorem rect_side_index:
  "(0 \<le> sint i \<longrightarrow>
      rect_side r i = rect_side r (word_of_int (sint i mod 4))
      \<and> rect_side r i
          = [rect_top r, rect_right r, rect_bottom r, rect_left r] ! nat (sint i mod 4))
   \<and> (4 dvd sint k \<longrightarrow>
      rect_side r k = rect_side r (word_of_int (sint k mod 4))
      \<and> rect_side r k
          = [rect_top r, rect_right r, rect_bottom r, rect_left r] ! nat (sint k mod 4))
   \<and> (sint j < 0 \<and> \<not> 4 dvd sint j \<longrightarrow> rect_side r j = line_default)"
  using rect_side_nonneg rect_side_mod rect_side_neg rect_side_multiple
  by (auto simp: mod_eq_0_iff_dvd)

text \<open>The index 7 is the left side, as the index 3; the index \<open>-4\<close> is the top side, as the
  index 0; the index \<open>-1\<close> is the default segment.\<close>

theorem rect_side_index_witness:
  "0 \<le> sint (7 :: int32)
   \<and> rect_side \<lparr>pos = \<lparr>x = 0, y = 0\<rparr>, size_r = \<lparr>x = 1, y = (1::real)\<rparr>\<rparr> 7
       = rect_side \<lparr>pos = \<lparr>x = 0, y = 0\<rparr>, size_r = \<lparr>x = 1, y = 1\<rparr>\<rparr> 3
   \<and> rect_side \<lparr>pos = \<lparr>x = 0, y = 0\<rparr>, size_r = \<lparr>x = 1, y = (1::real)\<rparr>\<rparr> 7
       = \<lparr>start = \<lparr>x = 0, y = 0\<rparr>, endp = \<lparr>x = 0, y = 1\<rparr>\<rparr>
   \<and> 4 dvd sint (- 4 :: int32)
   \<and> rect_side \<lparr>pos = \<lparr>x = 0, y = 0\<rparr>, size_r = \<lparr>x = 1, y = (1::real)\<rparr>\<rparr> (- 4)
       = rect_side \<lparr>pos = \<lparr>x = 0, y = 0\<rparr>, size_r = \<lparr>x = 1, y = 1\<rparr>\<rparr> 0
   \<and> rect_side \<lparr>pos = \<lparr>x = 0, y = 0\<rparr>, size_r = \<lparr>x = 1, y = (1::real)\<rparr>\<rparr> (- 4)
       = \<lparr>start = \<lparr>x = 0, y = 0\<rparr>, endp = \<lparr>x = 1, y = 0\<rparr>\<rparr>
   \<and> sint (- 1 :: int32) < 0 \<and> \<not> 4 dvd sint (- 1 :: int32)
   \<and> rect_side \<lparr>pos = \<lparr>x = 0, y = 0\<rparr>, size_r = \<lparr>x = 1, y = (1::real)\<rparr>\<rparr> (- 1)
       = \<lparr>start = \<lparr>x = 0, y = 0\<rparr>, endp = \<lparr>x = 0, y = 0\<rparr>\<rparr>"
  using rect_side_index [of 7 "\<lparr>pos = \<lparr>x = 0, y = 0\<rparr>, size_r = \<lparr>x = 1, y = (1::real)\<rparr>\<rparr>" "- 4" "- 1"]
  by (simp add: rect_side_def rect_defs line_defs signed_modulo_int_def)

text \<open>
  C5 as stated, for every integer \<open>i\<close>, fails at \<open>i = -1\<close>: \<open>-1 mod 4 = 3\<close> is the left
  side of the unit square, and \<open>side(-1)\<close> is the default segment.
\<close>

theorem rect_side_negative_index:
  "rect_side \<lparr>pos = \<lparr>x = 0, y = 0\<rparr>, size_r = \<lparr>x = 1, y = (1::real)\<rparr>\<rparr> (- 1)
   \<noteq> rect_side \<lparr>pos = \<lparr>x = 0, y = 0\<rparr>, size_r = \<lparr>x = 1, y = 1\<rparr>\<rparr>
        (word_of_int (sint (- 1 :: int32) mod 4))"
  by (simp add: rect_side_def rect_defs line_defs signed_modulo_int_def)

section \<open>Closest point of a segment\<close>

lemma closest_line_vec2_raw:
  fixes sx sy ex ey px py :: "'a::linordered_field"
  assumes "(ex - sx) * (ex - sx) + (ey - sy) * (ey - sy) \<noteq> 0"
  shows "closest_line_vec2 \<lparr>start = \<lparr>x = sx, y = sy\<rparr>, endp = \<lparr>x = ex, y = ey\<rparr>\<rparr> \<lparr>x = px, y = py\<rparr>
     = Inr \<lparr>x = sx + (ex - sx) * clamp_std (((ex - sx) * (px - sx) + (ey - sy) * (py - sy))
                    / ((ex - sx) * (ex - sx) + (ey - sy) * (ey - sy))) 0 1,
            y = sy + (ey - sy) * clamp_std (((ex - sx) * (px - sx) + (ey - sy) * (py - sy))
                    / ((ex - sx) * (ex - sx) + (ey - sy) * (ey - sy))) 0 1\<rparr>"
  using assms
  by (simp add: closest_line_vec2_def divide_checked_def line_defs vec2_defs Let_def)

text \<open>
  C9. For every segment of nonzero length and every point \<open>p\<close>, \<open>closest(Segment, p)\<close> takes
  the scalar projection \<open>u\<close> of \<open>p - start\<close> onto the direction \<open>end - start\<close>, divided by
  the squared length, and clamps it into \<open>[0,1]\<close> before it evaluates the parametric point:
  the start for \<open>u < 0\<close>, the end for \<open>u > 1\<close>, the point \<open>start + u (end - start)\<close>
  otherwise. The result is a point of the segment, at a parameter in \<open>[0,1]\<close>. Segment and
  point are given by their coordinates.
\<close>

theorem closest_line_vec2_clamps:
  fixes sx sy ex ey px py :: "'a::linordered_field"
  assumes "(ex - sx) * (ex - sx) + (ey - sy) * (ey - sy) \<noteq> 0"
  shows "closest_line_vec2 \<lparr>start = \<lparr>x = sx, y = sy\<rparr>, endp = \<lparr>x = ex, y = ey\<rparr>\<rparr> \<lparr>x = px, y = py\<rparr>
     = Inr (let u = ((ex - sx) * (px - sx) + (ey - sy) * (py - sy))
                    / ((ex - sx) * (ex - sx) + (ey - sy) * (ey - sy))
            in if u < 0 then \<lparr>x = sx, y = sy\<rparr>
               else if 1 < u then \<lparr>x = ex, y = ey\<rparr>
               else \<lparr>x = sx + (ex - sx) * u, y = sy + (ey - sy) * u\<rparr>)
   \<and> (\<exists>t. 0 \<le> t \<and> t \<le> 1
          \<and> closest_line_vec2 \<lparr>start = \<lparr>x = sx, y = sy\<rparr>, endp = \<lparr>x = ex, y = ey\<rparr>\<rparr>
                \<lparr>x = px, y = py\<rparr>
              = Inr \<lparr>x = sx + (ex - sx) * t, y = sy + (ey - sy) * t\<rparr>)"
proof
  show "closest_line_vec2 \<lparr>start = \<lparr>x = sx, y = sy\<rparr>, endp = \<lparr>x = ex, y = ey\<rparr>\<rparr> \<lparr>x = px, y = py\<rparr>
     = Inr (let u = ((ex - sx) * (px - sx) + (ey - sy) * (py - sy))
                    / ((ex - sx) * (ex - sx) + (ey - sy) * (ey - sy))
            in if u < 0 then \<lparr>x = sx, y = sy\<rparr>
               else if 1 < u then \<lparr>x = ex, y = ey\<rparr>
               else \<lparr>x = sx + (ex - sx) * u, y = sy + (ey - sy) * u\<rparr>)"
    by (simp add: closest_line_vec2_raw [OF assms] clamp_std_def Let_def)
next
  let ?t = "clamp_std (((ex - sx) * (px - sx) + (ey - sy) * (py - sy))
                       / ((ex - sx) * (ex - sx) + (ey - sy) * (ey - sy))) 0 1"
  have "0 \<le> ?t" "?t \<le> 1"
    by (simp_all add: clamp_std_def)
  with closest_line_vec2_raw [OF assms, of px py]
  show "\<exists>t. 0 \<le> t \<and> t \<le> 1
          \<and> closest_line_vec2 \<lparr>start = \<lparr>x = sx, y = sy\<rparr>, endp = \<lparr>x = ex, y = ey\<rparr>\<rparr>
                \<lparr>x = px, y = py\<rparr>
              = Inr \<lparr>x = sx + (ex - sx) * t, y = sy + (ey - sy) * t\<rparr>"
    by blast
qed

text \<open>
  On the segment \<open>(1,1)-(4,5)\<close>: \<open>(3,2)\<close> projects to \<open>(11/5, 13/5)\<close>, \<open>(0,0)\<close> is clamped to
  the start and \<open>(10,10)\<close> to the end. The spec's scenarios on \<open>(0,0)-(10,0)\<close>: \<open>(5,5)\<close>
  projects to \<open>(5,0)\<close>, and \<open>(-5,5)\<close> is clamped to the start \<open>(0,0)\<close>.
\<close>

theorem closest_line_vec2_clamps_witness:
  "(4 - 1) * (4 - 1) + (5 - 1) * (5 - 1) \<noteq> (0::real)
   \<and> closest_line_vec2 \<lparr>start = \<lparr>x = 1, y = 1\<rparr>, endp = \<lparr>x = 4, y = 5\<rparr>\<rparr> \<lparr>x = 3, y = (2::real)\<rparr>
       = Inr \<lparr>x = 11 / 5, y = 13 / 5\<rparr>
   \<and> closest_line_vec2 \<lparr>start = \<lparr>x = 1, y = 1\<rparr>, endp = \<lparr>x = 4, y = 5\<rparr>\<rparr> \<lparr>x = 0, y = (0::real)\<rparr>
       = Inr \<lparr>x = 1, y = 1\<rparr>
   \<and> closest_line_vec2 \<lparr>start = \<lparr>x = 1, y = 1\<rparr>, endp = \<lparr>x = 4, y = 5\<rparr>\<rparr> \<lparr>x = 10, y = (10::real)\<rparr>
       = Inr \<lparr>x = 4, y = 5\<rparr>
   \<and> (10 - 0) * (10 - 0) + (0 - 0) * (0 - 0) \<noteq> (0::real)
   \<and> closest_line_vec2 \<lparr>start = \<lparr>x = 0, y = 0\<rparr>, endp = \<lparr>x = 10, y = 0\<rparr>\<rparr> \<lparr>x = 5, y = (5::real)\<rparr>
       = Inr \<lparr>x = 5, y = 0\<rparr>
   \<and> closest_line_vec2 \<lparr>start = \<lparr>x = 0, y = 0\<rparr>, endp = \<lparr>x = 10, y = 0\<rparr>\<rparr> \<lparr>x = - 5, y = (5::real)\<rparr>
       = Inr \<lparr>x = 0, y = 0\<rparr>"
proof -
  have n: "(4 - 1) * (4 - 1) + (5 - 1) * (5 - 1) \<noteq> (0::real)" by simp
  have m: "(10 - 0) * (10 - 0) + (0 - 0) * (0 - 0) \<noteq> (0::real)" by simp
  show ?thesis
    using n m closest_line_vec2_clamps [OF n, of 3 2] closest_line_vec2_clamps [OF n, of 0 0]
      closest_line_vec2_clamps [OF n, of 10 10]
      closest_line_vec2_clamps [OF m, of 5 5] closest_line_vec2_clamps [OF m, of "- 5" 5]
    by simp
qed

text \<open>The clamped point is nearest to \<open>p\<close> among the points of the segment.\<close>

lemma clamped_parameter_nearest:
  fixes D N s :: "'a::linordered_field"
  assumes D: "0 < D" and s: "0 \<le> s" "s \<le> 1"
  defines "t \<equiv> clamp_std (N / D) 0 1"
  shows "t * t * D - 2 * t * N \<le> s * s * D - 2 * s * N"
proof -
  define u where "u = N / D"
  have N: "N = u * D" using D by (simp add: u_def)
  have key: "(s * s * D - 2 * s * N) - (t * t * D - 2 * t * N)
             = D * ((s - t) * (s + t - 2 * u))"
    by (simp add: N algebra_simps)
  have "0 \<le> (s - t) * (s + t - 2 * u)"
  proof -
    consider "u < 0" | "1 < u" | "0 \<le> u" "u \<le> 1" by linarith
    then show ?thesis
    proof cases
      case 1
      then have "t = 0" by (simp add: t_def u_def clamp_std_def)
      with 1 s show ?thesis by simp
    next
      case 2
      then have "t = 1" by (simp add: t_def u_def clamp_std_def)
      moreover have "s - 1 \<le> 0" "s + 1 - 2 * u \<le> 0" using 2 s by simp_all
      ultimately show ?thesis by (simp add: mult_nonpos_nonpos)
    next
      case 3
      then have "t = u" by (simp add: t_def u_def clamp_std_def)
      then have "(s - t) * (s + t - 2 * u) = (s - u) * (s - u)" by simp
      then show ?thesis by simp
    qed
  qed
  with D have "0 \<le> D * ((s - t) * (s + t - 2 * u))" by simp
  with key show ?thesis by linarith
qed

lemma closest_line_vec2_nearest:
  fixes sx sy ex ey px py s :: "'a::linordered_field"
  assumes n: "(ex - sx) * (ex - sx) + (ey - sy) * (ey - sy) \<noteq> 0" and s: "0 \<le> s" "s \<le> 1"
  shows "\<exists>q. closest_line_vec2 \<lparr>start = \<lparr>x = sx, y = sy\<rparr>, endp = \<lparr>x = ex, y = ey\<rparr>\<rparr>
               \<lparr>x = px, y = py\<rparr> = Inr q
           \<and> (px - x q) * (px - x q) + (py - y q) * (py - y q)
              \<le> (px - (sx + (ex - sx) * s)) * (px - (sx + (ex - sx) * s))
                + (py - (sy + (ey - sy) * s)) * (py - (sy + (ey - sy) * s))"
proof -
  define D where "D = (ex - sx) * (ex - sx) + (ey - sy) * (ey - sy)"
  define N where "N = (ex - sx) * (px - sx) + (ey - sy) * (py - sy)"
  define t where "t = clamp_std (N / D) 0 1"
  have "0 \<le> D" by (simp add: D_def)
  moreover from n have "D \<noteq> 0" unfolding D_def .
  ultimately have D: "0 < D" by simp
  have le: "t * t * D - 2 * t * N \<le> s * s * D - 2 * s * N"
    unfolding t_def using D s by (rule clamped_parameter_nearest)
  have f: "(px - (sx + (ex - sx) * r)) * (px - (sx + (ex - sx) * r))
           + (py - (sy + (ey - sy) * r)) * (py - (sy + (ey - sy) * r))
           = (px - sx) * (px - sx) + (py - sy) * (py - sy) + (r * r * D - 2 * r * N)" for r
    by (simp add: D_def N_def algebra_simps)
  have q: "closest_line_vec2 \<lparr>start = \<lparr>x = sx, y = sy\<rparr>, endp = \<lparr>x = ex, y = ey\<rparr>\<rparr> \<lparr>x = px, y = py\<rparr>
     = Inr \<lparr>x = sx + (ex - sx) * t, y = sy + (ey - sy) * t\<rparr>"
    using closest_line_vec2_raw [OF n] by (simp add: t_def N_def D_def)
  show ?thesis
    using le by (simp add: q f [of t] f [of s])
qed

section \<open>Intersection of a rect and a point\<close>

lemma or_else_simps:
  "or_else (Inr True) b = Inr True"
  "or_else (Inr False) b = b"
  "or_else (Inl e) b = Inl e"
  by (simp_all add: or_else_def)

lemma or_else_Inr_True_right: "or_else (Inr t) (Inr True) = Inr True"
  by (simp add: or_else_def)

lemma contains_line_vec2_defined:
  "line_length2 l \<noteq> 0 \<Longrightarrow> \<exists>t. contains_line_vec2 l p = Inr t"
  by (auto simp: contains_line_vec2_def divide_checked_def Let_def)

lemma unit_interval_quotient:
  fixes a w :: "'a::linordered_field"
  assumes "0 < w" "0 \<le> a" "a \<le> w"
  shows "0 \<le> w * a / (w * w) \<and> w * a / (w * w) \<le> 1"
  using assms by (simp add: field_simps)

lemma contains_rect_top:
  fixes r :: "'a::linordered_field rect"
  assumes "0 < x (size_r r)" "y p = y (pos r)" "x (pos r) \<le> x p" "x p \<le> x (pos r) + x (size_r r)"
  shows "contains_line_vec2 (rect_top r) p = Inr True"
  using assms unit_interval_quotient [of "x (size_r r)" "x p - x (pos r)"]
  by (simp add: contains_line_vec2_def divide_checked_def rect_top_def line_defs vec2_defs eps_def)

lemma contains_rect_bottom:
  fixes r :: "'a::linordered_field rect"
  assumes "0 < x (size_r r)" "y p = y (pos r) + y (size_r r)" "x (pos r) \<le> x p"
    "x p \<le> x (pos r) + x (size_r r)"
  shows "contains_line_vec2 (rect_bottom r) p = Inr True"
  using assms unit_interval_quotient [of "x (size_r r)" "x p - x (pos r)"]
  by (simp add: contains_line_vec2_def divide_checked_def rect_bottom_def line_defs vec2_defs eps_def)

lemma contains_rect_left:
  fixes r :: "'a::linordered_field rect"
  assumes "0 < y (size_r r)" "x p = x (pos r)" "y (pos r) \<le> y p" "y p \<le> y (pos r) + y (size_r r)"
  shows "contains_line_vec2 (rect_left r) p = Inr True"
  using assms unit_interval_quotient [of "y (size_r r)" "y p - y (pos r)"]
  by (simp add: contains_line_vec2_def divide_checked_def rect_left_def line_defs vec2_defs eps_def)

lemma contains_rect_right:
  fixes r :: "'a::linordered_field rect"
  assumes "0 < y (size_r r)" "x p = x (pos r) + x (size_r r)" "y (pos r) \<le> y p"
    "y p \<le> y (pos r) + y (size_r r)"
  shows "contains_line_vec2 (rect_right r) p = Inr True"
  using assms unit_interval_quotient [of "y (size_r r)" "y p - y (pos r)"]
  by (simp add: contains_line_vec2_def divide_checked_def rect_right_def line_defs vec2_defs eps_def)

lemma rect_edge_lengths:
  fixes r :: "'a::linordered_idom rect"
  shows "line_length2 (rect_top r) = x (size_r r) * x (size_r r)"
    and "line_length2 (rect_bottom r) = x (size_r r) * x (size_r r)"
    and "line_length2 (rect_left r) = y (size_r r) * y (size_r r)"
    and "line_length2 (rect_right r) = y (size_r r) * y (size_r r)"
  by (simp_all add: rect_defs line_defs vec2_defs)

text \<open>
  C10, as the source has it. \<open>intersects(rect, p)\<close> tests the four edges of the rect, not
  its interior: for a rect of positive width and nonnegative height and a point \<open>p\<close> with
  \<open>contains(r, p)\<close> that lies on the boundary of \<open>r\<close> (on the line of its top, bottom,
  left or right edge), it returns \<open>{p}\<close>.
\<close>

theorem intersects_rect_vec2_boundary:
  fixes r :: "'a::linordered_field rect"
  assumes w: "0 < x (size_r r)" and h: "0 \<le> y (size_r r)"
    and c: "contains_rect_vec2 r p"
    and b: "y p = y (pos r) \<or> y p = y (pos r) + y (size_r r)
            \<or> x p = x (pos r) \<or> x p = x (pos r) + x (size_r r)"
  shows "intersects_rect_vec2 r p = Inr [p]"
proof -
  from c have px: "x (pos r) \<le> x p" "x p \<le> x (pos r) + x (size_r r)"
    and py: "y (pos r) \<le> y p" "y p \<le> y (pos r) + y (size_r r)"
    by (simp_all add: contains_rect_vec2_def)
  from w obtain t1 where t1: "contains_line_vec2 (rect_top r) p = Inr t1"
    using contains_line_vec2_defined [of "rect_top r" p] by (auto simp: rect_edge_lengths)
  from w obtain t2 where t2: "contains_line_vec2 (rect_bottom r) p = Inr t2"
    using contains_line_vec2_defined [of "rect_bottom r" p] by (auto simp: rect_edge_lengths)
  have "or_else (contains_line_vec2 (rect_top r) p)
          (or_else (contains_line_vec2 (rect_bottom r) p)
             (or_else (contains_line_vec2 (rect_left r) p)
                (contains_line_vec2 (rect_right r) p))) = Inr True"
  proof (cases "y (size_r r) = 0")
    case True
    with py have "y p = y (pos r)" by simp
    then have "contains_line_vec2 (rect_top r) p = Inr True"
      using w px by (simp add: contains_rect_top)
    then show ?thesis by (simp add: or_else_simps)
  next
    case False
    with h have h': "0 < y (size_r r)" by simp
    from h' obtain t3 where t3: "contains_line_vec2 (rect_left r) p = Inr t3"
      using contains_line_vec2_defined [of "rect_left r" p] by (auto simp: rect_edge_lengths)
    from b consider
      (top) "y p = y (pos r)" | (bottom) "y p = y (pos r) + y (size_r r)"
      | (left) "x p = x (pos r)" | (right) "x p = x (pos r) + x (size_r r)"
      by blast
    then show ?thesis
    proof cases
      case top
      then have "contains_line_vec2 (rect_top r) p = Inr True"
        using w px by (simp add: contains_rect_top)
      then show ?thesis by (simp add: or_else_simps)
    next
      case bottom
      then have "contains_line_vec2 (rect_bottom r) p = Inr True"
        using w px by (simp add: contains_rect_bottom)
      then show ?thesis using t1 by (simp add: or_else_simps or_else_Inr_True_right)
    next
      case left
      then have "contains_line_vec2 (rect_left r) p = Inr True"
        using h' py by (simp add: contains_rect_left)
      then show ?thesis using t1 t2 by (simp add: or_else_simps or_else_Inr_True_right)
    next
      case right
      then have "contains_line_vec2 (rect_right r) p = Inr True"
        using h' py by (simp add: contains_rect_right)
      then show ?thesis using t1 t2 t3 by (simp add: or_else_simps or_else_Inr_True_right)
    qed
  qed
  then show ?thesis by (simp add: intersects_rect_vec2_def)
qed

text \<open>The point \<open>(2,1)\<close> lies on the right edge of the square of side 2.\<close>

theorem intersects_rect_vec2_boundary_witness:
  "0 < x (size_r \<lparr>pos = \<lparr>x = 0, y = 0\<rparr>, size_r = \<lparr>x = 2, y = (2::real)\<rparr>\<rparr>)
   \<and> 0 \<le> y (size_r \<lparr>pos = \<lparr>x = 0, y = 0\<rparr>, size_r = \<lparr>x = 2, y = (2::real)\<rparr>\<rparr>)
   \<and> contains_rect_vec2 \<lparr>pos = \<lparr>x = 0, y = 0\<rparr>, size_r = \<lparr>x = 2, y = 2\<rparr>\<rparr> \<lparr>x = 2, y = (1::real)\<rparr>
   \<and> x \<lparr>x = 2, y = (1::real)\<rparr>
       = x (pos \<lparr>pos = \<lparr>x = 0, y = 0\<rparr>, size_r = \<lparr>x = 2, y = (2::real)\<rparr>\<rparr>)
         + x (size_r \<lparr>pos = \<lparr>x = 0, y = 0\<rparr>, size_r = \<lparr>x = 2, y = (2::real)\<rparr>\<rparr>)
   \<and> intersects_rect_vec2 \<lparr>pos = \<lparr>x = 0, y = 0\<rparr>, size_r = \<lparr>x = 2, y = 2\<rparr>\<rparr> \<lparr>x = 2, y = (1::real)\<rparr>
       = Inr [\<lparr>x = 2, y = 1\<rparr>]"
  using intersects_rect_vec2_boundary
    [of "\<lparr>pos = \<lparr>x = 0, y = 0\<rparr>, size_r = \<lparr>x = 2, y = (2::real)\<rparr>\<rparr>" "\<lparr>x = 2, y = (1::real)\<rparr>"]
  by (simp add: contains_rect_vec2_def)

text \<open>
  C10 as stated, for every point with \<open>contains(r, p)\<close>, fails at an interior point: the
  centre \<open>(1,1)\<close> of the square of side 2 is contained, and the result is empty.
\<close>

theorem intersects_rect_vec2_interior_empty:
  "contains_rect_vec2 \<lparr>pos = \<lparr>x = 0, y = 0\<rparr>, size_r = \<lparr>x = 2, y = 2\<rparr>\<rparr> \<lparr>x = 1, y = (1::real)\<rparr>
   \<and> intersects_rect_vec2 \<lparr>pos = \<lparr>x = 0, y = 0\<rparr>, size_r = \<lparr>x = 2, y = 2\<rparr>\<rparr> \<lparr>x = 1, y = (1::real)\<rparr>
       = Inr []"
  by (simp add: contains_rect_vec2_def intersects_rect_vec2_def contains_line_vec2_def
      or_else_def rect_defs line_defs vec2_defs eps_def divide_checked_def)

section \<open>Containment and overlap\<close>

text \<open>
  The overloads of \<^verbatim>\<open>contains\<close> that are implemented (not the constant \<open>false\<close>) are those on
  (point, point), (segment, point), (rect, point), (circle, point), (rect, segment),
  (circle, segment), (rect, rect), (circle, rect) and (circle, circle).
\<close>

lemma contains_overlaps_vec2_vec2:
  "contains_vec2_vec2 p1 p2 \<Longrightarrow> overlaps_vec2_vec2 p1 p2"
  by (simp add: overlaps_vec2_vec2_def)

lemma contains_overlaps_line_vec2:
  "contains_line_vec2 l p = Inr True \<Longrightarrow> overlaps_line_vec2 l p = Inr True"
  by (simp add: overlaps_line_vec2_def)

lemma contains_overlaps_rect_vec2:
  "contains_rect_vec2 r p \<Longrightarrow> overlaps_rect_vec2 r p"
  by (simp add: overlaps_rect_vec2_def)

lemma contains_overlaps_circle_vec2:
  "contains_circle_vec2 c p \<Longrightarrow> overlaps_circle_vec2 c p"
  by (simp add: overlaps_circle_vec2_def)

lemma convex_square:
  fixes a b t :: "'a::linordered_idom"
  assumes "0 \<le> t" "t \<le> 1"
  shows "((1 - t) * a + t * b) * ((1 - t) * a + t * b) \<le> (1 - t) * (a * a) + t * (b * b)"
proof -
  have "(1 - t) * (a * a) + t * (b * b) - ((1 - t) * a + t * b) * ((1 - t) * a + t * b)
        = (t * (1 - t)) * ((a - b) * (a - b))"
    by (simp add: algebra_simps)
  moreover have "0 \<le> (t * (1 - t)) * ((a - b) * (a - b))"
    using assms by simp
  ultimately show ?thesis by simp
qed

lemma convex_less:
  fixes A B R t :: "'a::linordered_idom"
  assumes "0 \<le> t" "t \<le> 1" "A < R" "B < R"
  shows "(1 - t) * A + t * B < R"
proof (cases "t = 0")
  case True
  with assms show ?thesis by simp
next
  case False
  with assms have "0 < t" by simp
  then have "t * B < t * R" using assms by simp
  moreover have "(1 - t) * A \<le> (1 - t) * R"
    using assms by (simp add: mult_left_mono)
  moreover have "(1 - t) * R + t * R = R" by (simp add: algebra_simps)
  ultimately show ?thesis by linarith
qed

lemma contains_overlaps_circle_line:
  fixes c :: "'a::linordered_field circle"
  assumes n: "line_length2 l \<noteq> 0" and c: "contains_circle_line c l"
  shows "overlaps_circle_line c l = Inr True"
proof -
  define t where "t = clamp_std (vec2_dot (line_vec l) (vec2_minus (center c) (start l))
                                  / line_length2 l) 0 1"
  have t: "0 \<le> t" "t \<le> 1"
    by (simp_all add: t_def clamp_std_def)
  define a where "a = x (center c) - x (start l)"
  define b where "b = x (center c) - x (endp l)"
  define a' where "a' = y (center c) - y (start l)"
  define b' where "b' = y (center c) - y (endp l)"
  define R where "R = radius c * radius c"
  from c have A: "a * a + a' * a' < R" and B: "b * b + b' * b' < R"
    by (simp_all add: contains_circle_line_def contains_circle_vec2_def vec2_defs
        a_def a'_def b_def b'_def R_def)
  have q: "closest_line_vec2 l (center c)
             = Inr (vec2_plus (start l) (vec2_scale (line_vec l) t))"
    using n by (simp add: closest_line_vec2_def divide_checked_def t_def Let_def)
  have ex: "x (center c) - (x (start l) + (x (endp l) - x (start l)) * t) = (1 - t) * a + t * b"
    and ey: "y (center c) - (y (start l) + (y (endp l) - y (start l)) * t) = (1 - t) * a' + t * b'"
    by (simp_all add: a_def b_def a'_def b'_def algebra_simps)
  have "((1 - t) * a + t * b) * ((1 - t) * a + t * b)
        + ((1 - t) * a' + t * b') * ((1 - t) * a' + t * b')
        \<le> ((1 - t) * (a * a) + t * (b * b)) + ((1 - t) * (a' * a') + t * (b' * b'))"
    using convex_square [OF t, of a b] convex_square [OF t, of a' b'] by (rule add_mono)
  also have "\<dots> = (1 - t) * (a * a + a' * a') + t * (b * b + b' * b')"
    by (simp add: algebra_simps)
  also have "\<dots> < R"
    using t A B by (rule convex_less)
  finally show ?thesis
    by (simp add: overlaps_circle_line_def q vec2_defs line_vec_def ex ey R_def)
qed

lemma contains_overlaps_rect_rect:
  fixes r1 :: "'a::linordered_idom rect"
  assumes "0 < x (size_r r2)" "0 < y (size_r r2)" "contains_rect_rect r1 r2"
  shows "overlaps_rect_rect r1 r2"
  using assms by (simp add: contains_rect_rect_def overlaps_rect_rect_def)

lemma clamp_std_closer:
  fixes c X w :: "'a::linordered_idom"
  assumes "0 \<le> w"
  shows "(clamp_std c X (X + w) - c) * (clamp_std c X (X + w) - c) \<le> (c - X) * (c - X)"
proof -
  consider "c < X" | "X + w < c" | "X \<le> c" "c \<le> X + w" by linarith
  then show ?thesis
  proof cases
    case 1
    then have "clamp_std c X (X + w) = X" by (simp add: clamp_std_def)
    moreover have "(X - c) * (X - c) = (c - X) * (c - X)" by (simp add: algebra_simps)
    ultimately show ?thesis by simp
  next
    case 2
    with assms have "clamp_std c X (X + w) = X + w" by (simp add: clamp_std_def)
    moreover have "(X + w - c) * (X + w - c) = (c - X - w) * (c - X - w)"
      by (simp add: algebra_simps)
    moreover have "(c - X - w) * (c - X - w) \<le> (c - X) * (c - X)"
      using 2 assms by (intro mult_mono) simp_all
    ultimately show ?thesis by simp
  next
    case 3
    then have "clamp_std c X (X + w) = c" by (simp add: clamp_std_def)
    then show ?thesis by simp
  qed
qed

lemma contains_overlaps_circle_rect:
  fixes c :: "'a::linordered_idom circle"
  assumes "0 \<le> x (size_r r)" "0 \<le> y (size_r r)" "contains_circle_rect c r"
  shows "overlaps_circle_rect c r"
proof -
  from assms(3) have "(x (center c) - x (pos r)) * (x (center c) - x (pos r))
      + (y (center c) - y (pos r)) * (y (center c) - y (pos r)) < radius c * radius c"
    by (simp add: contains_circle_rect_def contains_circle_vec2_def vec2_defs)
  with clamp_std_closer [OF assms(1), of "x (center c)" "x (pos r)"]
    clamp_std_closer [OF assms(2), of "y (center c)" "y (pos r)"]
  show ?thesis
    by (simp add: overlaps_circle_rect_def vec2_defs Let_def)
qed

lemma contains_overlaps_circle_circle:
  fixes c1 :: "'a::linordered_idom circle"
  assumes "0 \<le> radius c1" "0 \<le> radius c2" "contains_circle_circle c1 c2"
  shows "overlaps_circle_circle c1 c2"
proof -
  have "(radius c1 + radius c2) * (radius c1 + radius c2)
        - (radius c1 - radius c2) * (radius c1 - radius c2) = 4 * (radius c1 * radius c2)"
    by (simp add: algebra_simps)
  moreover have "0 \<le> 4 * (radius c1 * radius c2)"
    using assms(1,2) by simp
  ultimately have "(radius c1 - radius c2) * (radius c1 - radius c2)
        \<le> (radius c1 + radius c2) * (radius c1 + radius c2)"
    by linarith
  with assms(3) show ?thesis
    by (simp add: contains_circle_circle_def overlaps_circle_circle_def)
qed

text \<open>
  \<open>overlaps(line, line)\<close> takes \<open>d\<close> as the cross product of the directions in the order
  \<open>(l2, l1)\<close>, so \<open>u1\<close> and \<open>u2\<close> are the negated parameters of the crossing point: the
  crossing diagonals of the square of side 2 do not overlap, and the segment
  \<open>(2,-1)-(3,1)\<close>, which crosses the top edge of the square of side 4 at \<open>(5/2, 0)\<close>, does
  not overlap that square.
\<close>

lemma overlaps_line_line_crossing_diagonals:
  "overlaps_line_line
     \<lparr>start = \<lparr>x = 0, y = 0\<rparr>, endp = \<lparr>x = 2, y = 2\<rparr>\<rparr>
     \<lparr>start = \<lparr>x = 0, y = 2\<rparr>, endp = \<lparr>x = 2, y = (0::real)\<rparr>\<rparr> = Inr False"
  by (simp add: overlaps_line_line_def divide_checked_def vec2_defs line_defs)

lemma overlaps_rect_line_misses_edge_crossing:
  "line_point (rect_top \<lparr>pos = \<lparr>x = 0, y = 0\<rparr>, size_r = \<lparr>x = 4, y = (4::real)\<rparr>\<rparr>) (5 / 8)
     = \<lparr>x = 5 / 2, y = 0\<rparr>
   \<and> line_point \<lparr>start = \<lparr>x = 2, y = - 1\<rparr>, endp = \<lparr>x = 3, y = (1::real)\<rparr>\<rparr> (1 / 2)
     = \<lparr>x = 5 / 2, y = 0\<rparr>
   \<and> overlaps_rect_line \<lparr>pos = \<lparr>x = 0, y = 0\<rparr>, size_r = \<lparr>x = 4, y = 4\<rparr>\<rparr>
       \<lparr>start = \<lparr>x = 2, y = - 1\<rparr>, endp = \<lparr>x = 3, y = (1::real)\<rparr>\<rparr> = Inr False"
  by (simp add: overlaps_rect_line_def overlaps_line_line_def or_else_def divide_checked_def
      rect_defs line_defs vec2_defs)

text \<open>
  C7. For every implemented pair, \<open>contains(A, B)\<close> implies \<open>overlaps(A, B)\<close>; in particular
  for two circles of nonnegative radii. The lemmas above give the implication for the
  circles and, for segments of nonzero length and rects of positive size, for every other
  implemented pair but (rect, segment). There
  \<open>overlaps(rect, segment)\<close> is the disjunction of four \<open>overlaps(line, line)\<close> tests of the
  segment against the edges; it never looks at the interior of the rect, which the sibling
  overloads on (rect, point), (rect, rect), (circle, rect) and (circle, segment) do. The
  segment \<open>(1,2)-(2,1)\<close> lies inside the square of side 4 at the origin: it is contained
  and does not overlap.
\<close>

theorem contains_rect_line_without_overlap:
  "contains_rect_line \<lparr>pos = \<lparr>x = 0, y = 0\<rparr>, size_r = \<lparr>x = 4, y = 4\<rparr>\<rparr>
       \<lparr>start = \<lparr>x = 1, y = 2\<rparr>, endp = \<lparr>x = 2, y = (1::real)\<rparr>\<rparr>
   \<and> overlaps_rect_line \<lparr>pos = \<lparr>x = 0, y = 0\<rparr>, size_r = \<lparr>x = 4, y = 4\<rparr>\<rparr>
       \<lparr>start = \<lparr>x = 1, y = 2\<rparr>, endp = \<lparr>x = 2, y = (1::real)\<rparr>\<rparr> = Inr False"
  by (simp add: contains_rect_line_def contains_rect_vec2_def overlaps_rect_line_def
      overlaps_line_line_def or_else_def divide_checked_def rect_defs
      line_vec_def vec2_cross_def vec2_minus_def vec2_plus_def)

text \<open>A rect of size zero at the corner of a rect is contained in it and does not overlap it:
  the strict comparison of \<open>overlaps(rect, rect)\<close> again.\<close>

lemma contains_rect_rect_without_overlap:
  "contains_rect_rect \<lparr>pos = \<lparr>x = 0, y = 0\<rparr>, size_r = \<lparr>x = 1, y = 1\<rparr>\<rparr>
       \<lparr>pos = \<lparr>x = 0, y = 0\<rparr>, size_r = \<lparr>x = 0, y = (0::real)\<rparr>\<rparr>
   \<and> \<not> overlaps_rect_rect \<lparr>pos = \<lparr>x = 0, y = 0\<rparr>, size_r = \<lparr>x = 1, y = 1\<rparr>\<rparr>
       \<lparr>pos = \<lparr>x = 0, y = 0\<rparr>, size_r = \<lparr>x = 0, y = (0::real)\<rparr>\<rparr>"
  by (simp add: contains_rect_rect_def overlaps_rect_rect_def)

end
